theory Spec2Isabelle
  imports Complex_Main "HOL-Library.Word"
begin

section \<open>Garfield::ComponentFieldMap: data model\<close>

text \<open>
  The header \<^verbatim>\<open>Include/Garfield/ComponentFieldMap.hh\<close> declares the class
  \<^verbatim>\<open>ComponentFieldMap\<close>. Its data members become the fields of a record, with the
  names of the header. A \<^verbatim>\<open>double\<close> is modelled by the real number it denotes (NaN
  and the infinities are outside the model; on all other values the comparisons of the
  code are the comparisons of the reals). A \<^verbatim>\<open>std::array<double, 3>\<close> is a value
  with exactly three components, read with the constant indices 0, 1 and 2.
\<close>

type_synonym double = real

datatype array3 = Array3 (elem0: double) (elem1: double) (elem2: double)

text \<open>\<^verbatim>\<open>struct Element { int emap[10]; unsigned int matmap; }\<close>\<close>

record Element =
  emap :: "int list"
  matmap :: "32 word"

text \<open>
  \<^verbatim>\<open>struct Material { double eps; double ohm; bool driftmedium; Medium* medium; }\<close>.
  The pointer to the external \<^verbatim>\<open>Medium\<close> object is an opaque handle; \<open>None\<close> is
  the null pointer.
\<close>

record Material =
  eps :: double
  ohm :: double
  driftmedium :: bool
  medium :: "nat option"

text \<open>
  Data members of the class, with the types of the header. \<^verbatim>\<open>m_nWarnings\<close>
  is an \<^verbatim>\<open>unsigned int\<close>. \<^verbatim>\<open>m_octree\<close> is a
  \<^verbatim>\<open>std::unique_ptr<TetrahedralTree>\<close>: \<open>None\<close> is the null pointer, and a tree is
  represented by its query, the list of element indices it reports for a point (the class
  \<^verbatim>\<open>TetrahedralTree\<close> is declared in another header).
\<close>

record ComponentFieldMap =
  m_elements :: "Element list"
  m_degenerate :: "bool list"
  m_bbMin :: "array3 list"
  m_bbMax :: "array3 list"
  m_pot :: "double list"
  m_materials :: "Material list"
  m_wdtimes :: "double list"
  m_minBoundingBox :: array3
  m_maxBoundingBox :: array3
  m_mapvmin :: double
  m_mapvmax :: double
  m_nWarnings :: "32 word"
  m_printConvergenceWarnings :: bool
  m_checkMultipleElement :: bool
  m_useTetrahedralTree :: bool
  m_octree :: "(double \<Rightarrow> double \<Rightarrow> double \<Rightarrow> nat list) option"

text \<open>
  The component as its default member initialisers leave it, before any field map is
  loaded: empty vectors, a bounding box and a voltage range of zeros, no warnings counted,
  convergence warnings on, multiple-element checking off, the tetrahedral tree enabled
  but not built.
\<close>

definition ComponentFieldMap_default :: ComponentFieldMap where
  "ComponentFieldMap_default =
     \<lparr> m_elements = [], m_degenerate = [], m_bbMin = [], m_bbMax = [],
       m_pot = [], m_materials = [], m_wdtimes = [],
       m_minBoundingBox = Array3 0 0 0, m_maxBoundingBox = Array3 0 0 0,
       m_mapvmin = 0, m_mapvmax = 0, m_nWarnings = 0,
       m_printConvergenceWarnings = True, m_checkMultipleElement = False,
       m_useTetrahedralTree = True, m_octree = None \<rparr>"

section \<open>Operations defined in the header\<close>

text \<open>
  \<^verbatim>\<open>bool IsInBoundingBox(const double x, const double y, const double z) const\<close>,
  conjunct by conjunct as the header writes it; the last conjunct reads \<open>y\<close>.
\<close>

definition IsInBoundingBox :: "ComponentFieldMap \<Rightarrow> double \<Rightarrow> double \<Rightarrow> double \<Rightarrow> bool" where
  "IsInBoundingBox s x y z \<longleftrightarrow>
     x \<ge> elem0 (m_minBoundingBox s) \<and> x \<le> elem0 (m_maxBoundingBox s) \<and>
     y \<ge> elem1 (m_minBoundingBox s) \<and> y \<le> elem1 (m_maxBoundingBox s) \<and>
     z \<ge> elem2 (m_minBoundingBox s) \<and> y \<le> elem2 (m_maxBoundingBox s)"

text \<open>
  The per-axis containment predicate the specification asks implementers to use instead:
  each coordinate is compared with the bounds of its own axis.
\<close>

definition InBoundingBox_per_axis :: "ComponentFieldMap \<Rightarrow> double \<Rightarrow> double \<Rightarrow> double \<Rightarrow> bool" where
  "InBoundingBox_per_axis s x y z \<longleftrightarrow>
     x \<ge> elem0 (m_minBoundingBox s) \<and> x \<le> elem0 (m_maxBoundingBox s) \<and>
     y \<ge> elem1 (m_minBoundingBox s) \<and> y \<le> elem1 (m_maxBoundingBox s) \<and>
     z \<ge> elem2 (m_minBoundingBox s) \<and> z \<le> elem2 (m_maxBoundingBox s)"

text \<open>
  \<^verbatim>\<open>bool GetVoltageRange(double& vmin, double& vmax)\<close>. The two reference parameters
  come in with whatever the caller stored in them; the result is the returned flag with
  their contents after the call.
\<close>

definition GetVoltageRange :: "ComponentFieldMap \<Rightarrow> double \<Rightarrow> double \<Rightarrow> bool \<times> double \<times> double" where
  "GetVoltageRange s vmin vmax =
     (let vmin = m_mapvmin s;
          vmax = m_mapvmax s
      in (True, vmin, vmax))"

section \<open>Properties of the operations defined in the header\<close>

text \<open>
  C1. \<^verbatim>\<open>IsInBoundingBox\<close> does not test the upper bound of \<open>z\<close>: its last conjunct
  compares \<open>y\<close> with \<^verbatim>\<open>m_maxBoundingBox[2]\<close>. Whenever \<open>x\<close> and \<open>y\<close> are within
  their bounds, \<open>z\<close> is at least \<^verbatim>\<open>m_minBoundingBox[2]\<close> and \<open>y\<close> is at most
  \<^verbatim>\<open>m_maxBoundingBox[2]\<close>, a point with \<open>z\<close> strictly above \<^verbatim>\<open>m_maxBoundingBox[2]\<close>
  is reported inside, and so is every point further up; the per-axis predicate rejects it.
\<close>

theorem IsInBoundingBox_misses_z_upper_bound:
  assumes "elem0 (m_minBoundingBox s) \<le> x" and "x \<le> elem0 (m_maxBoundingBox s)"
    and "elem1 (m_minBoundingBox s) \<le> y" and "y \<le> elem1 (m_maxBoundingBox s)"
    and "elem2 (m_minBoundingBox s) \<le> z" and "y \<le> elem2 (m_maxBoundingBox s)"
    and "elem2 (m_maxBoundingBox s) < z"
  shows "IsInBoundingBox s x y z \<and> \<not> InBoundingBox_per_axis s x y z \<and>
         (\<forall>z' \<ge> z. IsInBoundingBox s x y z')"
  using assms by (auto simp: IsInBoundingBox_def InBoundingBox_per_axis_def)

theorem IsInBoundingBox_misses_z_upper_bound_witness:
  "elem2 (m_maxBoundingBox ComponentFieldMap_default) < 1 \<and>
   IsInBoundingBox ComponentFieldMap_default 0 0 1 \<and>
   \<not> InBoundingBox_per_axis ComponentFieldMap_default 0 0 1 \<and>
   IsInBoundingBox ComponentFieldMap_default 0 0 1000000"
  using IsInBoundingBox_misses_z_upper_bound [of ComponentFieldMap_default 0 0 1]
  by (simp add: ComponentFieldMap_default_def)

text \<open>
  C10. \<^verbatim>\<open>GetVoltageRange\<close> returns true in every state of the component and for any
  previous contents of its two reference parameters, which it overwrites with the stored
  extremes of the map potential; on a component into which no field map has been loaded
  it reports the range from 0 to 0.
\<close>

theorem GetVoltageRange_always_true:
  "GetVoltageRange s vmin vmax = (True, m_mapvmin s, m_mapvmax s) \<and>
   GetVoltageRange ComponentFieldMap_default vmin vmax = (True, 0, 0)"
  by (simp add: GetVoltageRange_def ComponentFieldMap_default_def)

end
